theory Spec2Isabelle
  imports Complex_Main "HOL-Library.Sublist"
begin

section \<open>JavaScript values used by the frontend\<close>

text \<open>
  A JavaScript string is modelled as a \<^typ>\<open>string\<close>; each \<^typ>\<open>char\<close> stands for a
  UTF-16 code unit below 256. A JavaScript number is modelled as a \<^typ>\<open>real\<close>. The value
  \<^verbatim>\<open>undefined\<close> of an optional field and \<^verbatim>\<open>null\<close> are \<^term>\<open>None\<close>.
\<close>

datatype json =
    JNull
  | JBool bool
  | JNumber real
  | JString string
  | JArray "json list"
  | JObject "(string \<times> json) list"

text \<open>
  The exceptions of the modelled code: \<^verbatim>\<open>JSON.parse\<close> or \<^verbatim>\<open>response.json()\<close>
  rejecting its input, the \<^verbatim>\<open>Error\<close> a handler throws for a response that is not ok,
  with the status, and a rejected \<^verbatim>\<open>fetch\<close>.
\<close>

datatype js_error =
    SyntaxError
  | HttpError nat
  | NetworkError

text \<open>\<^verbatim>\<open>Array.isArray(v)\<close>.\<close>

fun isArray :: "json \<Rightarrow> bool" where
  "isArray (JArray xs) = True"
| "isArray v = False"

text \<open>
  \<^verbatim>\<open>Array.prototype.map\<close> with a callback that may throw: the first exception ends the
  loop and is the outcome of the call.
\<close>

fun map_throwing :: "('a \<Rightarrow> js_error + 'b) \<Rightarrow> 'a list \<Rightarrow> js_error + 'b list" where
  "map_throwing f [] = Inr []"
| "map_throwing f (x # xs) =
     (case f x of
        Inl e \<Rightarrow> Inl e
      | Inr y \<Rightarrow> (case map_throwing f xs of Inl e \<Rightarrow> Inl e | Inr ys \<Rightarrow> Inr (y # ys)))"

section \<open>ThinkingPanel.tsx: messages and their conversion\<close>

text \<open>
  \<^verbatim>\<open>interface MessageHttpResponse { id; sender; content; thinking_process?; timestamp }\<close>
\<close>

record MessageHttpResponse =
  http_id :: string
  http_sender :: string
  http_content :: string
  http_thinking_process :: "string option"
  http_timestamp :: string

text \<open>
  \<^verbatim>\<open>interface Message { id; sender; content; thinkingProcess?; timestamp }\<close>.
  The sender is typed \<^verbatim>\<open>'user' | 'bot'\<close>, but the code only asserts that type
  (\<^verbatim>\<open>as 'user' | 'bot'\<close>), so at run time it is whatever string arrived. The same holds
  for \<^verbatim>\<open>thinkingProcess\<close>: the value is cast to \<^verbatim>\<open>ThinkingProcessStep[]\<close> without a
  check of its elements, so the field holds a JSON value.
\<close>

record Message =
  msg_id :: string
  msg_sender :: string
  msg_content :: string
  msg_thinkingProcess :: "json option"
  msg_timestamp :: string

text \<open>
  The body of the \<^verbatim>\<open>try\<close> block of \<^verbatim>\<open>convertHttpResponseToMessage\<close>. The
  platform function \<^verbatim>\<open>JSON.parse\<close> is a parameter: it returns the parsed value or throws.
\<close>

definition parseThinkingProcess ::
  "(string \<Rightarrow> js_error + json) \<Rightarrow> string \<Rightarrow> Message \<Rightarrow> js_error + Message" where
  "parseThinkingProcess JSON_parse s convertedMessage =
     (case JSON_parse s of
        Inl e \<Rightarrow> Inl e
      | Inr parsedThinkingProcess \<Rightarrow>
          if isArray parsedThinkingProcess
          then Inr (convertedMessage\<lparr>msg_thinkingProcess := Some parsedThinkingProcess\<rparr>)
          else Inr convertedMessage)"

text \<open>
  \<^verbatim>\<open>convertHttpResponseToMessage\<close>. The test \<^verbatim>\<open>if (httpResponse.thinking_process)\<close>
  is false for an absent field and for the empty string. The \<^verbatim>\<open>catch\<close> clause only
  logs, so an exception of the \<^verbatim>\<open>try\<close> block leaves the basic mapping as the result.
\<close>

definition convertHttpResponseToMessage ::
  "(string \<Rightarrow> js_error + json) \<Rightarrow> MessageHttpResponse \<Rightarrow> js_error + Message" where
  "convertHttpResponseToMessage JSON_parse httpResponse =
     (let convertedMessage =
            \<lparr> msg_id = http_id httpResponse,
              msg_sender = http_sender httpResponse,
              msg_content = http_content httpResponse,
              msg_thinkingProcess = None,
              msg_timestamp = http_timestamp httpResponse \<rparr>
      in case http_thinking_process httpResponse of
           None \<Rightarrow> Inr convertedMessage
         | Some s \<Rightarrow>
             if s = [] then Inr convertedMessage
             else (case parseThinkingProcess JSON_parse s convertedMessage of
                     Inl e \<Rightarrow> Inr convertedMessage
                   | Inr m \<Rightarrow> Inr m))"

section \<open>config.ts and the browser\<close>

definition API_PREFIX :: string where
  "API_PREFIX = ''http://127.0.0.1:8000''"

text \<open>
  The decimal rendering of a non-negative integer, as string concatenation
  (\<^verbatim>\<open>"FAKEID-TEMP-MESSAGE" + Date.now()\<close>) produces it.
\<close>

function string_of_nat :: "nat \<Rightarrow> string" where
  "string_of_nat n =
     (if n < 10 then [char_of (48 + n)]
      else string_of_nat (n div 10) @ [char_of (48 + n mod 10)])"
  by pat_completeness auto
termination
  by (relation "measure (\<lambda>n. n)") auto

declare string_of_nat.simps [simp del]

text \<open>
  \<^verbatim>\<open>String.prototype.trim\<close> on code units below 256: tab, line feed, vertical tab, form
  feed, carriage return, space and no-break space are removed from both ends.
\<close>

definition js_whitespace :: "char \<Rightarrow> bool" where
  "js_whitespace c =
     (c \<in> set [CHR 0x09, CHR 0x0A, CHR 0x0B, CHR 0x0C, CHR 0x0D, CHR 0x20, CHR 0xA0])"

definition trim :: "string \<Rightarrow> string" where
  "trim s = rev (dropWhile js_whitespace (rev (dropWhile js_whitespace s)))"

text \<open>
  The truth value of a \<^verbatim>\<open>string | null\<close>: \<^verbatim>\<open>null\<close> and the empty string are false.
\<close>

definition truthy :: "string option \<Rightarrow> bool" where
  "truthy v = (case v of None \<Rightarrow> False | Some s \<Rightarrow> s \<noteq> [])"

text \<open>A template literal prints an absent value as \<^verbatim>\<open>undefined\<close>.\<close>

definition template :: "string option \<Rightarrow> string" where
  "template v = (case v of None \<Rightarrow> ''undefined'' | Some s \<Rightarrow> s)"

text \<open>
  What a handler does to the world outside the component state is recorded in logs, oldest
  entry first: the \<^verbatim>\<open>fetch\<close> calls it issues, the \<^verbatim>\<open>alert\<close> boxes and
  \<^verbatim>\<open>message.error\<close> toasts it opens, the assignments to \<^verbatim>\<open>window.location.href\<close>
  and the calls of the router's \<^verbatim>\<open>navigate\<close>. Console output is not recorded. The body of
  a request is kept as the JSON value that \<^verbatim>\<open>JSON.stringify\<close> is applied to.
\<close>

datatype http_method = GET | POST | DELETE

record request =
  req_method :: http_method
  req_url :: string
  req_headers :: "(string \<times> string) list"
  req_body :: "json option"

record browser =
  requests :: "request list"
  alerts :: "string list"
  toasts :: "string list"
  hrefs :: "string list"
  navigations :: "string list"

text \<open>
  A \<^verbatim>\<open>fetch\<close> promise either rejects (no response arrived) or resolves to a response
  with a status and a body; \<^verbatim>\<open>response.json()\<close> returns the parsed body, taken at the
  type the code declares for it, or throws. \<^verbatim>\<open>response.ok\<close> is true for the statuses
  200 to 299.
\<close>

record 'a response =
  status :: nat
  json_result :: "js_error + 'a"

datatype 'a fetch_outcome = Rejected | Resolved "'a response"

definition ok :: "'a response \<Rightarrow> bool" where
  "ok r = (200 \<le> status r \<and> status r \<le> 299)"

text \<open>
  \<^verbatim>\<open>const response = await fetch(...); if (!response.ok) throw new Error(...)\<close>
\<close>

definition await_ok :: "'a fetch_outcome \<Rightarrow> js_error + 'a response" where
  "await_ok outcome =
     (case outcome of
        Rejected \<Rightarrow> Inl NetworkError
      | Resolved r \<Rightarrow> if ok r then Inr r else Inl (HttpError (status r)))"

text \<open>
  The two readings of the clock that the chat panel takes: \<^verbatim>\<open>Date.now()\<close> and
  \<^verbatim>\<open>new Date().toLocaleString('sv-SE', {timeZone: 'Asia/Shanghai'})\<close>.
\<close>

record clock =
  now :: nat
  localeString :: string

section \<open>ChatPanel.tsx\<close>

text \<open>
  The state of the chat panel. The props \<^verbatim>\<open>currentChatId\<close> and \<^verbatim>\<open>currentModel\<close>
  are arguments of the handlers. A handler reads the state of the render it was created in;
  it is modelled as called on the current state, with no other event between its start and
  the arrival of its response.
\<close>

record ChatPanel = browser +
  hoveredMessageId :: "string option"
  messages :: "Message list"
  inputText :: string
  isLoading :: bool

text \<open>\<^verbatim>\<open>handleDeleteMessageClick\<close>\<close>

definition deleteMessageRequest :: "string \<Rightarrow> request" where
  "deleteMessageRequest messageId =
     \<lparr> req_method = DELETE, req_url = API_PREFIX @ ''/api/message/'' @ messageId,
       req_headers = [], req_body = None \<rparr>"

definition handleDeleteMessageClick ::
  "string \<Rightarrow> unit fetch_outcome \<Rightarrow> ChatPanel \<Rightarrow> ChatPanel" where
  "handleDeleteMessageClick messageId outcome s =
     (let s1 = s\<lparr>requests := requests s @ [deleteMessageRequest messageId]\<rparr>
      in case await_ok outcome of
           Inr response \<Rightarrow>
             s1\<lparr>messages := filter (\<lambda>msg. msg_id msg \<noteq> messageId) (messages s)\<rparr>
         | Inl error \<Rightarrow>
             s1\<lparr>alerts := alerts s1 @ [''Failed to delete message. Please try again.'']\<rparr>)"

text \<open>
  The effect that fetches the messages when \<^verbatim>\<open>currentChatId\<close> changes. The content
  of the error message starts with a cross-mark emoji and a space in the source; the emoji is
  a character outside the modelled code units, and both are left out here.
\<close>

definition fetchMessagesRequest :: "string \<Rightarrow> request" where
  "fetchMessagesRequest chatId =
     \<lparr> req_method = GET, req_url = API_PREFIX @ ''/api/chat/'' @ chatId @ ''/messages'',
       req_headers = [], req_body = None \<rparr>"

definition networkIssueMessage :: "clock \<Rightarrow> Message" where
  "networkIssueMessage clk =
     \<lparr> msg_id = ''FAKEID-MESSAGE-FAILED'' @ string_of_nat (now clk),
       msg_sender = ''bot'',
       msg_content =
         ''Whoops! There seems to be some network issue, please try again later.'',
       msg_thinkingProcess = None,
       msg_timestamp = localeString clk \<rparr>"

text \<open>
  The \<^verbatim>\<open>try\<close> block of \<^verbatim>\<open>fetchMessages\<close>, run on the state after the request was
  issued. A response that is not ok first assigns \<^verbatim>\<open>window.location.href\<close>, then
  throws; the exception carries the state reached so far.
\<close>

definition fetchMessages_try ::
  "(string \<Rightarrow> js_error + json) \<Rightarrow> MessageHttpResponse list fetch_outcome \<Rightarrow> ChatPanel
     \<Rightarrow> (js_error \<times> ChatPanel) + ChatPanel" where
  "fetchMessages_try JSON_parse outcome s =
     (case outcome of
        Rejected \<Rightarrow> Inl (NetworkError, s)
      | Resolved response \<Rightarrow>
          if \<not> ok response
          then Inl (HttpError (status response), s\<lparr>hrefs := hrefs s @ [''/'']\<rparr>)
          else (case json_result response of
                  Inl e \<Rightarrow> Inl (e, s)
                | Inr all_messages \<Rightarrow>
                    (case map_throwing (convertHttpResponseToMessage JSON_parse) all_messages of
                       Inl e \<Rightarrow> Inl (e, s)
                     | Inr data \<Rightarrow> Inr (s\<lparr>messages := data\<rparr>))))"

definition fetchMessages ::
  "(string \<Rightarrow> js_error + json) \<Rightarrow> string option \<Rightarrow> clock
     \<Rightarrow> MessageHttpResponse list fetch_outcome \<Rightarrow> ChatPanel \<Rightarrow> ChatPanel" where
  "fetchMessages JSON_parse currentChatId clk outcome s =
     (case currentChatId of
        None \<Rightarrow> s\<lparr>messages := []\<rparr>
      | Some chatId \<Rightarrow>
          (case fetchMessages_try JSON_parse outcome
                  (s\<lparr>requests := requests s @ [fetchMessagesRequest chatId]\<rparr>) of
             Inr s' \<Rightarrow> s'
           | Inl (error, s') \<Rightarrow> s'\<lparr>messages := [networkIssueMessage clk]\<rparr>))"

text \<open>\<^verbatim>\<open>handleSend\<close>. The declared type of the response body:\<close>

record BotResponse =
  bot_id :: string
  bot_user_message_id :: string
  bot_sender :: string
  bot_content :: string
  bot_timestamp :: string
  bot_thinking_process :: "json option"

definition temp_user_message_id :: "clock \<Rightarrow> string" where
  "temp_user_message_id clk = ''FAKEID-TEMP-MESSAGE'' @ string_of_nat (now clk)"

definition userMessage :: "clock \<Rightarrow> string \<Rightarrow> Message" where
  "userMessage clk text =
     \<lparr> msg_id = temp_user_message_id clk, msg_sender = ''user'', msg_content = text,
       msg_thinkingProcess = None, msg_timestamp = localeString clk \<rparr>"

definition sendRequest :: "string \<Rightarrow> string \<Rightarrow> string \<Rightarrow> request" where
  "sendRequest chatId text currentModel =
     \<lparr> req_method = POST, req_url = API_PREFIX @ ''/api/chat/'' @ chatId @ ''/messages'',
       req_headers = [(''Content-Type'', ''application/json'')],
       req_body = Some (JObject [(''message'', JString text),
                                 (''model_name'', JString currentModel)]) \<rparr>"

text \<open>
  The guard \<^verbatim>\<open>if (!inputText.trim() || !currentChatId || isLoading) return\<close>.
\<close>

definition handleSend_returns :: "string option \<Rightarrow> ChatPanel \<Rightarrow> bool" where
  "handleSend_returns currentChatId s =
     (trim (inputText s) = [] \<or> \<not> truthy currentChatId \<or> isLoading s)"

text \<open>
  The synchronous part of \<^verbatim>\<open>handleSend\<close>, up to the \<^verbatim>\<open>await\<close>: the optimistic
  append, the clearing of the input, the loading flag and the POST request. \<^term>\<open>clk\<close> is
  the clock at the call.
\<close>

definition handleSend_begin ::
  "string option \<Rightarrow> string \<Rightarrow> clock \<Rightarrow> ChatPanel \<Rightarrow> ChatPanel" where
  "handleSend_begin currentChatId currentModel clk s =
     (if handleSend_returns currentChatId s then s
      else case currentChatId of
             None \<Rightarrow> s
           | Some chatId \<Rightarrow>
               s\<lparr> messages := messages s @ [userMessage clk (inputText s)],
                  inputText := [],
                  isLoading := True,
                  requests := requests s @ [sendRequest chatId (inputText s) currentModel] \<rparr>)"

definition lastMessage :: "clock \<Rightarrow> string \<Rightarrow> BotResponse \<Rightarrow> Message" where
  "lastMessage clk text botResponse =
     \<lparr> msg_id = bot_user_message_id botResponse, msg_sender = ''user'', msg_content = text,
       msg_thinkingProcess = None, msg_timestamp = localeString clk \<rparr>"

definition botMessage :: "clock \<Rightarrow> BotResponse \<Rightarrow> Message" where
  "botMessage clk' botResponse =
     \<lparr> msg_id = bot_id botResponse, msg_sender = bot_sender botResponse,
       msg_content = bot_content botResponse,
       msg_thinkingProcess = bot_thinking_process botResponse,
       msg_timestamp = localeString clk' \<rparr>"

definition sendFailedMessage :: "clock \<Rightarrow> Message" where
  "sendFailedMessage clk' =
     \<lparr> msg_id = ''FAKEID-MESSAGE-FAILED'' @ string_of_nat (now clk'),
       msg_sender = ''bot'',
       msg_content = ''Sorry, an error occurred while processing your message.'',
       msg_thinkingProcess = None,
       msg_timestamp = localeString clk' \<rparr>"

text \<open>
  The \<^verbatim>\<open>try\<close> block after the request was issued. \<^term>\<open>s\<close> is the state the handler
  was called on: \<^verbatim>\<open>messages\<close> and \<^verbatim>\<open>inputText\<close> in the block are the values of that
  render. \<^term>\<open>cur\<close> is the state when the response arrives, \<^term>\<open>clk'\<close> the clock then.
  \<^verbatim>\<open>setMessages(newMessages)\<close> replaces the list by one built from the list of the
  render.
\<close>

definition handleSend_try ::
  "clock \<Rightarrow> clock \<Rightarrow> BotResponse fetch_outcome \<Rightarrow> ChatPanel \<Rightarrow> ChatPanel
     \<Rightarrow> js_error + ChatPanel" where
  "handleSend_try clk clk' outcome s cur =
     (case await_ok outcome of
        Inl e \<Rightarrow> Inl e
      | Inr response \<Rightarrow>
          (case json_result response of
             Inl e \<Rightarrow> Inl e
           | Inr botResponse \<Rightarrow>
               (let newMessages =
                      filter (\<lambda>message. msg_id message \<noteq> temp_user_message_id clk)
                        (messages s)
                in Inr (cur\<lparr>messages :=
                          newMessages @ [lastMessage clk (inputText s) botResponse,
                                         botMessage clk' botResponse]\<rparr>))))"

text \<open>
  The part of \<^verbatim>\<open>handleSend\<close> after the \<^verbatim>\<open>await\<close>: the \<^verbatim>\<open>try\<close> block, the
  \<^verbatim>\<open>catch\<close> clause, which appends an error message to the current list, and the
  \<^verbatim>\<open>finally\<close> clause.
\<close>

definition handleSend_settle ::
  "string option \<Rightarrow> clock \<Rightarrow> clock \<Rightarrow> BotResponse fetch_outcome \<Rightarrow> ChatPanel \<Rightarrow> ChatPanel
     \<Rightarrow> ChatPanel" where
  "handleSend_settle currentChatId clk clk' outcome s cur =
     (if handleSend_returns currentChatId s then cur
      else (case handleSend_try clk clk' outcome s cur of
              Inr s' \<Rightarrow> s'
            | Inl error \<Rightarrow> cur\<lparr>messages := messages cur @ [sendFailedMessage clk']\<rparr>)
           \<lparr>isLoading := False\<rparr>)"

definition handleSend ::
  "string option \<Rightarrow> string \<Rightarrow> clock \<Rightarrow> clock \<Rightarrow> BotResponse fetch_outcome \<Rightarrow> ChatPanel
     \<Rightarrow> ChatPanel" where
  "handleSend currentChatId currentModel clk clk' outcome s =
     handleSend_settle currentChatId clk clk' outcome s
       (handleSend_begin currentChatId currentModel clk s)"

section \<open>ChatPage.tsx and Sidebar.tsx\<close>

record ChatSession =
  chat_id :: string
  chat_title :: string
  chat_updated_at :: string

record BackendStatus =
  status_ok :: bool
  status_storage :: string
  status_cache :: string
  status_logger :: string
  status_db :: string
  status_ready :: bool

record ChatPage = browser +
  backendStatus :: BackendStatus
  isSidebarOpen :: bool
  currentModel :: string
  currentChatId :: "string option"
  availableChats :: "ChatSession list"

text \<open>\<^verbatim>\<open>handleSelectChat\<close> of the chat page.\<close>

definition handleSelectChat :: "string \<Rightarrow> ChatPage \<Rightarrow> ChatPage" where
  "handleSelectChat chatId p =
     p\<lparr>currentChatId := Some chatId, navigations := navigations p @ [''/chat/'' @ chatId]\<rparr>"

text \<open>
  \<^verbatim>\<open>handleDeleteChat\<close> of the chat page. \<^term>\<open>r\<close> is the state of the render the
  handler instance belongs to and \<^term>\<open>cur\<close> the state when it runs: the functional
  update \<^verbatim>\<open>setAvailableChats(prev => ...)\<close> filters the current list, while
  \<^verbatim>\<open>currentChatId\<close> in the test is the constant captured by the closure, the selection
  of the render.
\<close>

definition handleDeleteChat :: "string \<Rightarrow> ChatPage \<Rightarrow> ChatPage \<Rightarrow> ChatPage" where
  "handleDeleteChat chatId r cur =
     (let p1 = cur\<lparr>availableChats :=
                  filter (\<lambda>chat. chat_id chat \<noteq> chatId) (availableChats cur)\<rparr>
      in if currentChatId r = Some chatId
         then p1\<lparr>currentChatId := None, navigations := navigations p1 @ [''/'']\<rparr>
         else p1)"

text \<open>
  \<^verbatim>\<open>handleDeleteClick\<close> of the sidebar; \<^term>\<open>confirmed\<close> is the answer to
  \<^verbatim>\<open>window.confirm\<close>. The synchronous part issues the DELETE request. The part after the
  \<^verbatim>\<open>await\<close> runs on the state \<^term>\<open>cur\<close> that the response finds; its
  \<^verbatim>\<open>onDeleteChat\<close> is the prop of the render \<^term>\<open>r\<close> in which the delete button
  was clicked, the handler above with the selection of that render.
\<close>

definition deleteChatRequest :: "string \<Rightarrow> request" where
  "deleteChatRequest chatId =
     \<lparr> req_method = DELETE, req_url = API_PREFIX @ ''/api/chat/'' @ chatId,
       req_headers = [], req_body = None \<rparr>"

definition handleDeleteClick_begin :: "string \<Rightarrow> bool \<Rightarrow> ChatPage \<Rightarrow> ChatPage" where
  "handleDeleteClick_begin chatId confirmed p =
     (if confirmed then p\<lparr>requests := requests p @ [deleteChatRequest chatId]\<rparr> else p)"

definition handleDeleteClick_settle ::
  "string \<Rightarrow> bool \<Rightarrow> unit fetch_outcome \<Rightarrow> ChatPage \<Rightarrow> ChatPage \<Rightarrow> ChatPage" where
  "handleDeleteClick_settle chatId confirmed outcome r cur =
     (if confirmed
      then (case await_ok outcome of
              Inr response \<Rightarrow> handleDeleteChat chatId r cur
            | Inl error \<Rightarrow>
                cur\<lparr>alerts := alerts cur @ [''Failed to delete chat. Please try again.'']\<rparr>)
      else cur)"

text \<open>The run of \<^verbatim>\<open>handleDeleteClick\<close> with no other event before its response.\<close>

definition handleDeleteClick ::
  "string \<Rightarrow> bool \<Rightarrow> unit fetch_outcome \<Rightarrow> ChatPage \<Rightarrow> ChatPage" where
  "handleDeleteClick chatId confirmed outcome p =
     handleDeleteClick_settle chatId confirmed outcome p
       (handleDeleteClick_begin chatId confirmed p)"

section \<open>PlayGround.tsx\<close>

record Thumbnail =
  time_second :: real
  image_url :: string

record VideoData =
  video_id :: real
  video_title :: string
  video_url :: string
  thumbnails :: "Thumbnail list"

record PlayGround = browser +
  videoData :: "VideoData option"
  pg_loading :: bool

text \<open>
  \<^verbatim>\<open>fetchData\<close>: both \<^verbatim>\<open>fetch\<close> calls are made while the array handed to
  \<^verbatim>\<open>Promise.all\<close> is built, before anything is awaited.
\<close>

definition fetchData_begin :: "string \<Rightarrow> PlayGround \<Rightarrow> PlayGround" where
  "fetchData_begin videoId s =
     s\<lparr>requests := requests s @
          [\<lparr> req_method = GET, req_url = ''/api/videos/'' @ videoId @ ''/'',
             req_headers = [], req_body = None \<rparr>,
           \<lparr> req_method = GET, req_url = ''/api/videos/'' @ videoId @ ''/thumbnails/'',
             req_headers = [], req_body = None \<rparr>]\<rparr>"

definition fetchData_try ::
  "VideoData fetch_outcome \<Rightarrow> Thumbnail list fetch_outcome \<Rightarrow> PlayGround
     \<Rightarrow> js_error + PlayGround" where
  "fetchData_try videoOutcome thumbsOutcome cur =
     (case (videoOutcome, thumbsOutcome) of
        (Resolved videoRes, Resolved thumbsRes) \<Rightarrow>
          (case json_result videoRes of
             Inl e \<Rightarrow> Inl e
           | Inr video \<Rightarrow>
               (case json_result thumbsRes of
                  Inl e \<Rightarrow> Inl e
                | Inr thumbs \<Rightarrow> Inr (cur\<lparr>videoData := Some (video\<lparr>thumbnails := thumbs\<rparr>)\<rparr>)))
      | _ \<Rightarrow> Inl NetworkError)"

definition fetchData_settle ::
  "VideoData fetch_outcome \<Rightarrow> Thumbnail list fetch_outcome \<Rightarrow> PlayGround \<Rightarrow> PlayGround" where
  "fetchData_settle videoOutcome thumbsOutcome cur =
     (case fetchData_try videoOutcome thumbsOutcome cur of
        Inr s' \<Rightarrow> s'
      | Inl err \<Rightarrow> cur\<lparr>toasts := toasts cur @ [''Failed to load video resources'']\<rparr>)
     \<lparr>pg_loading := False\<rparr>"

definition fetchData ::
  "string \<Rightarrow> VideoData fetch_outcome \<Rightarrow> Thumbnail list fetch_outcome \<Rightarrow> PlayGround
     \<Rightarrow> PlayGround" where
  "fetchData videoId videoOutcome thumbsOutcome s =
     fetchData_settle videoOutcome thumbsOutcome (fetchData_begin videoId s)"

section \<open>LectureSections.tsx, LectureTranscripts.tsx and the video element\<close>

record Section =
  section_id :: real
  section_begin_time :: real
  section_text :: string

record LectureSections = browser +
  sections :: "Section list option"
  ls_loading :: bool

definition mockSections :: "Section list" where
  "mockSections =
     [\<lparr> section_id = 1, section_begin_time = 0,
        section_text = ''Introduction to the lecture and overview of topics.'' \<rparr>,
      \<lparr> section_id = 2, section_begin_time = 300,
        section_text = ''Deep dive into the first topic with examples.'' \<rparr>,
      \<lparr> section_id = 3, section_begin_time = 900,
        section_text = ''Discussion on advanced concepts and applications.'' \<rparr>,
      \<lparr> section_id = 4, section_begin_time = 1500,
        section_text = ''Summary and conclusion of the lecture.'' \<rparr>]"

text \<open>
  \<^verbatim>\<open>fetchSections\<close>: the request is issued and awaited, the check of the response and the
  reading of its body are commented out, and the state is set from the mock data. A rejected
  promise goes to the \<^verbatim>\<open>catch\<close> clause, which only logs.
\<close>

definition fetchSections ::
  "string option \<Rightarrow> Section list fetch_outcome \<Rightarrow> LectureSections \<Rightarrow> LectureSections" where
  "fetchSections videoId outcome s =
     (let s1 = s\<lparr>requests := requests s @
                  [\<lparr> req_method = GET,
                     req_url = API_PREFIX @ ''/api/videos/'' @ template videoId @ ''/sections'',
                     req_headers = [], req_body = None \<rparr>]\<rparr>
      in case outcome of
           Rejected \<Rightarrow> s1
         | Resolved response \<Rightarrow> s1\<lparr>sections := Some mockSections, ls_loading := False\<rparr>)"

text \<open>The list the component renders: \<^verbatim>\<open>dataSource={sections || []}\<close>.\<close>

definition sections_dataSource :: "LectureSections \<Rightarrow> Section list" where
  "sections_dataSource s = (case sections s of None \<Rightarrow> [] | Some xs \<Rightarrow> xs)"

text \<open>
  The click handler of a rendered section:
  \<^verbatim>\<open>onClick={() => handleItemClick(section.begin_time / 1000)}\<close>. The callback acts on
  some state \<^typ>\<open>'w\<close>.
\<close>

definition section_onClick :: "(real \<Rightarrow> 'w \<Rightarrow> 'w) \<Rightarrow> Section \<Rightarrow> 'w \<Rightarrow> 'w" where
  "section_onClick handleItemClick section = handleItemClick (section_begin_time section / 1000)"

record Sentence =
  channel_id :: real
  sentence_id :: real
  sentence_begin_time :: real
  sentence_end_time :: real
  sentence_language :: string
  sentence_emotion :: string
  sentence_text :: string

text \<open>
  The click handler of a transcript sentence, whose \<^verbatim>\<open>begin_time\<close> is in milliseconds:
  \<^verbatim>\<open>onClick={() => handleItemClick(sentence.begin_time / 1000)}\<close>.
\<close>

definition sentence_onClick :: "(real \<Rightarrow> 'w \<Rightarrow> 'w) \<Rightarrow> Sentence \<Rightarrow> 'w \<Rightarrow> 'w" where
  "sentence_onClick handleItemClick sentence =
     handleItemClick (sentence_begin_time sentence / 1000)"

text \<open>
  The seek callback that \<^verbatim>\<open>LectureVideoAnalysis\<close> hands to both lists:
  \<^verbatim>\<open>jumpVideoTime\<close> assigns \<^verbatim>\<open>currentTime\<close>, in seconds, and starts playback when
  the video element is mounted. \<^verbatim>\<open>videoRef.current\<close> is the argument.
\<close>

record HTMLVideoElement =
  currentTime :: real
  paused :: bool

definition jumpVideoTime :: "real \<Rightarrow> HTMLVideoElement option \<Rightarrow> HTMLVideoElement option" where
  "jumpVideoTime time videoRef =
     (case videoRef of
        None \<Rightarrow> None
      | Some video \<Rightarrow> Some (video\<lparr>currentTime := time, paused := False\<rparr>))"

section \<open>Outcomes of a request, and concrete runs\<close>

text \<open>
  What a handler that checks \<^verbatim>\<open>response.ok\<close> and then reads the body obtains from its
  request: the body, or the exception that sends it to its \<^verbatim>\<open>catch\<close> clause. A request
  succeeds when this is a body and fails when it is an exception; for a handler that does not
  read the body, \<^const>\<open>await_ok\<close> decides.
\<close>

definition fetch_json :: "'a fetch_outcome \<Rightarrow> js_error + 'a" where
  "fetch_json outcome =
     (case await_ok outcome of Inl e \<Rightarrow> Inl e | Inr response \<Rightarrow> json_result response)"

text \<open>
  Inputs of the concrete runs below: a chat panel as first rendered with a text typed in, a
  clock reading, a reply of the backend to a sent message, and a response with status 200.
\<close>

definition fresh_panel :: "string \<Rightarrow> ChatPanel" where
  "fresh_panel text =
     \<lparr> requests = [], alerts = [], toasts = [], hrefs = [], navigations = [],
       hoveredMessageId = None, messages = [], inputText = text, isLoading = False \<rparr>"

definition clock_at :: "nat \<Rightarrow> clock" where
  "clock_at t = \<lparr> now = t, localeString = ''2025-01-01 10:00:00'' \<rparr>"

definition reply :: "string \<Rightarrow> string \<Rightarrow> BotResponse" where
  "reply uid bid =
     \<lparr> bot_id = bid, bot_user_message_id = uid, bot_sender = ''bot'',
       bot_content = ''an answer'', bot_timestamp = ''2025-01-01 10:00:01'',
       bot_thinking_process = None \<rparr>"

definition answered :: "'a \<Rightarrow> 'a fetch_outcome" where
  "answered body = Resolved \<lparr> status = 200, json_result = Inr body \<rparr>"

text \<open>
  The panel after a send in chat \<^verbatim>\<open>c1\<close> whose request was rejected within the
  clock reading of its start, with a new text typed in; and the panel after a send that the
  backend answered.
\<close>

definition after_failed_send :: ChatPanel where
  "after_failed_send =
     (handleSend (Some ''c1'') ''qwen-turbo'' (clock_at 5) (clock_at 5) Rejected
        (fresh_panel ''hi''))\<lparr>inputText := ''again''\<rparr>"

definition after_send :: ChatPanel where
  "after_send =
     (handleSend (Some ''c1'') ''qwen-turbo'' (clock_at 5) (clock_at 6)
        (answered (reply ''u1'' ''b1'')) (fresh_panel ''hi''))\<lparr>inputText := ''more''\<rparr>"

text \<open>The panel while a send is in flight, with a second text typed in.\<close>

definition send_in_flight :: ChatPanel where
  "send_in_flight =
     (handleSend_begin (Some ''c1'') ''qwen-turbo'' (clock_at 5) (fresh_panel ''hi''))
       \<lparr>inputText := ''second''\<rparr>"

definition fresh_page :: ChatPage where
  "fresh_page =
     \<lparr> requests = [], alerts = [], toasts = [], hrefs = [], navigations = [],
       backendStatus = \<lparr> status_ok = True, status_storage = ''?'', status_cache = ''?'',
                         status_logger = ''?'', status_db = ''?'', status_ready = True \<rparr>,
       isSidebarOpen = True, currentModel = ''qwen2.5-0.5b-instruct'',
       currentChatId = Some ''c1'',
       availableChats =
         [\<lparr> chat_id = ''c1'', chat_title = ''first'', chat_updated_at = ''t1'' \<rparr>,
          \<lparr> chat_id = ''c2'', chat_title = ''second'', chat_updated_at = ''t2'' \<rparr>] \<rparr>"

text \<open>
  A run on the page above, where chat \<^verbatim>\<open>c1\<close> is selected: the delete button of one chat
  is clicked and confirmed, a chat is selected while the DELETE request is in flight, and the
  backend then answers the request with status 200.
\<close>

definition delete_then_select :: "string \<Rightarrow> string \<Rightarrow> ChatPage" where
  "delete_then_select deleted selected =
     handleDeleteClick_settle deleted True (answered ()) fresh_page
       (handleSelectChat selected (handleDeleteClick_begin deleted True fresh_page))"

text \<open>Two messages as the backend lists them for a chat.\<close>

definition stored_messages :: "MessageHttpResponse list" where
  "stored_messages =
     [\<lparr> http_id = ''u1'', http_sender = ''user'', http_content = ''hi'',
        http_thinking_process = None, http_timestamp = ''2025-01-01 10:00:00'' \<rparr>,
      \<lparr> http_id = ''b1'', http_sender = ''bot'', http_content = ''an answer'',
        http_thinking_process = Some ''[]'', http_timestamp = ''2025-01-01 10:00:01'' \<rparr>]"

definition fresh_playground :: PlayGround where
  "fresh_playground =
     \<lparr> requests = [], alerts = [], toasts = [], hrefs = [], navigations = [],
       videoData = None, pg_loading = True \<rparr>"


section \<open>Properties of the conversion\<close>

lemma convert_basic:
  "\<exists>tp. convertHttpResponseToMessage JSON_parse h =
     Inr \<lparr> msg_id = http_id h, msg_sender = http_sender h, msg_content = http_content h,
           msg_thinkingProcess = tp, msg_timestamp = http_timestamp h \<rparr>"
  by (simp add: convertHttpResponseToMessage_def parseThinkingProcess_def Let_def
        split: option.split sum.split)

text \<open>
  Claim C5. When the \<^verbatim>\<open>thinking_process\<close> field holds a string that
  \<^verbatim>\<open>JSON.parse\<close> turns into an array, the converted message carries exactly that parsed
  array, in its order, as \<^verbatim>\<open>thinkingProcess\<close>, and its id, sender, content and timestamp
  are the fields of the input. The first premise is a fact of the platform: the empty string is
  not a JSON text.
\<close>

theorem convert_parses_thinking_process:
  assumes "JSON_parse [] = Inl SyntaxError"
    and "http_thinking_process h = Some s"
    and "JSON_parse s = Inr (JArray steps)"
  shows "convertHttpResponseToMessage JSON_parse h =
     Inr \<lparr> msg_id = http_id h, msg_sender = http_sender h, msg_content = http_content h,
           msg_thinkingProcess = Some (JArray steps), msg_timestamp = http_timestamp h \<rparr>"
proof -
  from assms(1,3) have "s \<noteq> []" by auto
  with assms(2,3) show ?thesis
    by (simp add: convertHttpResponseToMessage_def parseThinkingProcess_def)
qed

theorem convert_parses_thinking_process_witness:
  "convertHttpResponseToMessage
     (\<lambda>s. if s = ''[1, true]'' then Inr (JArray [JNumber 1, JBool True]) else Inl SyntaxError)
     \<lparr> http_id = ''m1'', http_sender = ''bot'', http_content = ''hello'',
       http_thinking_process = Some ''[1, true]'', http_timestamp = ''2025-01-01 10:00:00'' \<rparr>
   = Inr \<lparr> msg_id = ''m1'', msg_sender = ''bot'', msg_content = ''hello'',
           msg_thinkingProcess = Some (JArray [JNumber 1, JBool True]),
           msg_timestamp = ''2025-01-01 10:00:00'' \<rparr>"
  using convert_parses_thinking_process
    [of "\<lambda>s. if s = ''[1, true]'' then Inr (JArray [JNumber 1, JBool True]) else Inl SyntaxError"
        "\<lparr> http_id = ''m1'', http_sender = ''bot'', http_content = ''hello'',
           http_thinking_process = Some ''[1, true]'', http_timestamp = ''2025-01-01 10:00:00'' \<rparr>"
        "''[1, true]''" "[JNumber 1, JBool True]"]
  by simp

text \<open>
  Claim C9. The conversion returns a message for every input and every behaviour of
  \<^verbatim>\<open>JSON.parse\<close>: no exception leaves the function. The id, sender, content and timestamp
  of the result are those of the input, and \<^verbatim>\<open>thinkingProcess\<close> stays absent when the
  field is absent, when \<^verbatim>\<open>JSON.parse\<close> throws on it, and when it parses to a value that
  is not an array.
\<close>

theorem convert_total:
  "\<exists>m. convertHttpResponseToMessage JSON_parse h = Inr m
     \<and> msg_id m = http_id h \<and> msg_sender m = http_sender h
     \<and> msg_content m = http_content h \<and> msg_timestamp m = http_timestamp h
     \<and> ((http_thinking_process h = None
          \<or> (\<exists>s e. http_thinking_process h = Some s \<and> JSON_parse s = Inl e)
          \<or> (\<exists>s v. http_thinking_process h = Some s \<and> JSON_parse s = Inr v \<and> \<not> isArray v))
         \<longrightarrow> msg_thinkingProcess m = None)"
proof (cases "http_thinking_process h")
  case None
  then show ?thesis
    by (simp add: convertHttpResponseToMessage_def)
next
  case (Some s)
  show ?thesis
  proof (cases "s = []")
    case True
    with Some show ?thesis
      by (simp add: convertHttpResponseToMessage_def)
  next
    case False
    show ?thesis
    proof (cases "JSON_parse s")
      case (Inl e)
      with Some False show ?thesis
        by (simp add: convertHttpResponseToMessage_def parseThinkingProcess_def)
    next
      case (Inr v)
      with Some False show ?thesis
        by (cases "isArray v")
           (simp_all add: convertHttpResponseToMessage_def parseThinkingProcess_def)
    qed
  qed
qed

theorem convert_total_witness:
  "(\<exists>m. convertHttpResponseToMessage (\<lambda>s. if s = ''7'' then Inr (JNumber 7) else Inl SyntaxError)
          \<lparr> http_id = ''m2'', http_sender = ''bot'', http_content = ''hi'',
            http_thinking_process = None, http_timestamp = ''t'' \<rparr> = Inr m
     \<and> msg_id m = ''m2'' \<and> msg_sender m = ''bot'' \<and> msg_content m = ''hi''
     \<and> msg_timestamp m = ''t'' \<and> msg_thinkingProcess m = None)
   \<and> (\<exists>m. convertHttpResponseToMessage (\<lambda>s. if s = ''7'' then Inr (JNumber 7) else Inl SyntaxError)
          \<lparr> http_id = ''m2'', http_sender = ''bot'', http_content = ''hi'',
            http_thinking_process = Some ''not json'', http_timestamp = ''t'' \<rparr> = Inr m
     \<and> msg_id m = ''m2'' \<and> msg_sender m = ''bot'' \<and> msg_content m = ''hi''
     \<and> msg_timestamp m = ''t'' \<and> msg_thinkingProcess m = None)
   \<and> (\<exists>m. convertHttpResponseToMessage (\<lambda>s. if s = ''7'' then Inr (JNumber 7) else Inl SyntaxError)
          \<lparr> http_id = ''m2'', http_sender = ''bot'', http_content = ''hi'',
            http_thinking_process = Some ''7'', http_timestamp = ''t'' \<rparr> = Inr m
     \<and> msg_id m = ''m2'' \<and> msg_sender m = ''bot'' \<and> msg_content m = ''hi''
     \<and> msg_timestamp m = ''t'' \<and> msg_thinkingProcess m = None)"
  using convert_total
    [of "\<lambda>s. if s = ''7'' then Inr (JNumber 7) else Inl SyntaxError"
        "\<lparr> http_id = ''m2'', http_sender = ''bot'', http_content = ''hi'',
           http_thinking_process = None, http_timestamp = ''t'' \<rparr>"]
    convert_total
    [of "\<lambda>s. if s = ''7'' then Inr (JNumber 7) else Inl SyntaxError"
        "\<lparr> http_id = ''m2'', http_sender = ''bot'', http_content = ''hi'',
           http_thinking_process = Some ''not json'', http_timestamp = ''t'' \<rparr>"]
    convert_total
    [of "\<lambda>s. if s = ''7'' then Inr (JNumber 7) else Inl SyntaxError"
        "\<lparr> http_id = ''m2'', http_sender = ''bot'', http_content = ''hi'',
           http_thinking_process = Some ''7'', http_timestamp = ''t'' \<rparr>"]
  by simp

section \<open>Deleting a chat\<close>

lemma length_filter_key:
  "length (filter (\<lambda>x. f x \<noteq> k) xs) + length (filter (\<lambda>x. f x = k) xs) = length xs"
  by (induction xs) auto

lemma filter_key_absent:
  "k \<notin> f ` set xs \<Longrightarrow> filter (\<lambda>x. f x \<noteq> k) xs = xs"
  by (induction xs) auto

lemma filter_key_distinct:
  assumes "distinct (map f (xs @ c # ys))" and "f c = k"
  shows "filter (\<lambda>x. f x \<noteq> k) (xs @ c # ys) = xs @ ys"
proof -
  from assms have "k \<notin> f ` set xs" and "k \<notin> f ` set ys"
    by auto
  then have "filter (\<lambda>x. f x \<noteq> k) xs = xs" and "filter (\<lambda>x. f x \<noteq> k) ys = ys"
    by (simp_all add: filter_key_absent)
  with assms(2) show ?thesis
    by simp
qed

lemma handleDeleteChat_chats:
  "availableChats (handleDeleteChat chatId r cur) =
     filter (\<lambda>chat. chat_id chat \<noteq> chatId) (availableChats cur)"
  by (simp add: handleDeleteChat_def Let_def)

text \<open>
  What \<^verbatim>\<open>handleDeleteChat(id)\<close> does in every run. The session list becomes the current
  list without the sessions whose id is \<^verbatim>\<open>id\<close>: nothing is added and the order of the
  others is kept (a subsequence), a session of the list stays exactly when its id differs,
  and the length drops by the number of matching sessions; with unique ids the one matching
  session is cut out, and a list without a match is returned as it is. The selection becomes
  \<^verbatim>\<open>null\<close>, with one navigation to the home route, exactly when the deleted id is the
  selection of the render the handler belongs to; otherwise the current selection and the
  navigation log stay. No other part of the page state changes. When the render is the current
  state, the selection is cleared exactly when the deleted chat is the selected one.
\<close>

lemma handleDeleteChat_run:
  "let p' = handleDeleteChat chatId r cur in
     subseq (availableChats p') (availableChats cur)
     \<and> (\<forall>c \<in> set (availableChats cur). c \<in> set (availableChats p') \<longleftrightarrow> chat_id c \<noteq> chatId)
     \<and> length (availableChats p') + length (filter (\<lambda>c. chat_id c = chatId) (availableChats cur))
         = length (availableChats cur)
     \<and> (distinct (map chat_id (availableChats cur)) \<longrightarrow>
          (\<forall>xs c ys. availableChats cur = xs @ c # ys \<and> chat_id c = chatId
             \<longrightarrow> availableChats p' = xs @ ys))
     \<and> (chatId \<notin> chat_id ` set (availableChats cur) \<longrightarrow> availableChats p' = availableChats cur)
     \<and> currentChatId p' = (if currentChatId r = Some chatId then None else currentChatId cur)
     \<and> navigations p' =
         (if currentChatId r = Some chatId then navigations cur @ [''/''] else navigations cur)
     \<and> p' = cur\<lparr>availableChats := availableChats p', currentChatId := currentChatId p',
                  navigations := navigations p'\<rparr>"
proof -
  let ?p' = "handleDeleteChat chatId r cur"
  have order: "subseq (availableChats ?p') (availableChats cur)"
    by (simp add: handleDeleteChat_chats)
  have members: "\<forall>c \<in> set (availableChats cur).
      c \<in> set (availableChats ?p') \<longleftrightarrow> chat_id c \<noteq> chatId"
    by (simp add: handleDeleteChat_chats)
  have count: "length (availableChats ?p')
      + length (filter (\<lambda>c. chat_id c = chatId) (availableChats cur))
      = length (availableChats cur)"
    by (simp add: handleDeleteChat_chats length_filter_key)
  have one: "distinct (map chat_id (availableChats cur)) \<longrightarrow>
      (\<forall>xs c ys. availableChats cur = xs @ c # ys \<and> chat_id c = chatId
         \<longrightarrow> availableChats ?p' = xs @ ys)"
  proof (intro impI allI, elim conjE)
    fix xs c ys
    assume "distinct (map chat_id (availableChats cur))"
      and "availableChats cur = xs @ c # ys" and "chat_id c = chatId"
    then show "availableChats ?p' = xs @ ys"
      using filter_key_distinct [of chat_id xs c ys chatId]
      by (simp only: handleDeleteChat_chats)
  qed
  have none: "chatId \<notin> chat_id ` set (availableChats cur)
      \<longrightarrow> availableChats ?p' = availableChats cur"
    by (simp add: handleDeleteChat_chats filter_key_absent)
  have sel: "currentChatId ?p' =
      (if currentChatId r = Some chatId then None else currentChatId cur)"
    by (simp add: handleDeleteChat_def Let_def)
  have nav: "navigations ?p' =
      (if currentChatId r = Some chatId then navigations cur @ [''/''] else navigations cur)"
    by (simp add: handleDeleteChat_def Let_def)
  have frame: "?p' = cur\<lparr>availableChats := availableChats ?p',
      currentChatId := currentChatId ?p', navigations := navigations ?p'\<rparr>"
    by (simp add: handleDeleteChat_def Let_def)
  from order members count one none sel nav frame show ?thesis
    unfolding Let_def by blast
qed

lemma handleDeleteChat_same_render:
  "currentChatId (handleDeleteChat chatId p p) =
     (if currentChatId p = Some chatId then None else currentChatId p)
   \<and> (navigations (handleDeleteChat chatId p p) = navigations p @ [''/'']
        \<longleftrightarrow> currentChatId p = Some chatId)"
  by (simp add: handleDeleteChat_def Let_def)

text \<open>
  Claim C7. The list part of the claim holds in every run, as shown above, and so does the
  part on the selection when nothing happens between the click on the delete button and the
  answer to the DELETE request. The code misses it when a chat is selected in between, since
  the handler compares the deleted id with the selection of the render of the click. On the
  page with the chats \<^verbatim>\<open>c1\<close> and \<^verbatim>\<open>c2\<close> and \<^verbatim>\<open>c1\<close> selected: deleting
  \<^verbatim>\<open>c2\<close> and selecting \<^verbatim>\<open>c2\<close> meanwhile removes \<^verbatim>\<open>c2\<close> from the list and
  leaves it selected, without a navigation to the home route; deleting \<^verbatim>\<open>c1\<close> and
  selecting \<^verbatim>\<open>c2\<close> meanwhile removes \<^verbatim>\<open>c1\<close>, and clears the selection of
  \<^verbatim>\<open>c2\<close>, which is still in the list, with a navigation to the home route.
\<close>

theorem handleDeleteChat_stale_selection:
  "map chat_id (availableChats fresh_page) = [''c1'', ''c2'']
   \<and> currentChatId fresh_page = Some ''c1''
   \<and> currentChatId (handleSelectChat ''c2'' (handleDeleteClick_begin ''c2'' True fresh_page))
       = Some ''c2''
   \<and> map chat_id (availableChats (delete_then_select ''c2'' ''c2'')) = [''c1'']
   \<and> currentChatId (delete_then_select ''c2'' ''c2'') = Some ''c2''
   \<and> navigations (delete_then_select ''c2'' ''c2'') = [''/chat/c2'']
   \<and> map chat_id (availableChats (delete_then_select ''c1'' ''c2'')) = [''c2'']
   \<and> currentChatId (delete_then_select ''c1'' ''c2'') = None
   \<and> navigations (delete_then_select ''c1'' ''c2'') = [''/chat/c2'', ''/'']"
  by code_simp

section \<open>Sections of a lecture\<close>

text \<open>
  Claim C8. Whenever the request of \<^verbatim>\<open>fetchSections\<close> is answered, the sections state is
  the hardcoded list of four sections, whatever the video id, the status and the body of the
  response and the state before: two runs with any video ids and any responses end with the
  same sections, which are also the rendered ones.
\<close>

theorem fetchSections_constant:
  "sections (fetchSections videoId (Resolved response) s) = Some mockSections
   \<and> sections (fetchSections videoId' (Resolved response') s') =
       sections (fetchSections videoId (Resolved response) s)
   \<and> sections_dataSource (fetchSections videoId (Resolved response) s) = mockSections
   \<and> length mockSections = 4"
  by (simp add: fetchSections_def Let_def sections_dataSource_def mockSections_def)

text \<open>
  Claim C10. Clicking a section calls the seek callback with its \<^verbatim>\<open>begin_time\<close> divided
  by 1000. This is the call that a transcript sentence with the same \<^verbatim>\<open>begin_time\<close>
  makes, whose times are in milliseconds. With \<^verbatim>\<open>jumpVideoTime\<close> as the callback and a
  mounted video element, the video is set to \<^verbatim>\<open>begin_time / 1000\<close> seconds; the four
  hardcoded sections, at 0, 300, 900 and 1500, seek to 0, 0.3, 0.9 and 1.5 seconds.
\<close>

theorem section_onClick_seeks_milliseconds:
  "section_onClick handleItemClick section = handleItemClick (section_begin_time section / 1000)
   \<and> section_onClick handleItemClick section =
       sentence_onClick handleItemClick
         (sentence\<lparr>sentence_begin_time := section_begin_time section\<rparr>)
   \<and> section_onClick jumpVideoTime section (Some video) =
       Some (video\<lparr>currentTime := section_begin_time section / 1000, paused := False\<rparr>)
   \<and> map (\<lambda>section. section_onClick (\<lambda>time w. time) section 0) mockSections
       = [0, 3 / 10, 9 / 10, 3 / 2]"
  by (simp add: section_onClick_def sentence_onClick_def jumpVideoTime_def mockSections_def)

section \<open>Sending a message\<close>

lemma handleSend_begin_run:
  assumes "\<not> handleSend_returns cid s"
  shows "\<exists>chatId. cid = Some chatId \<and>
     handleSend_begin cid model clk s =
       s\<lparr> messages := messages s @ [userMessage clk (inputText s)],
          inputText := [],
          isLoading := True,
          requests := requests s @ [sendRequest chatId (inputText s) model] \<rparr>"
  using assms
  by (cases cid) (simp_all add: handleSend_begin_def handleSend_returns_def truthy_def)

lemma handleSend_success:
  assumes "\<not> handleSend_returns cid s"
    and "fetch_json outcome = Inr botResponse"
  shows "\<exists>chatId. cid = Some chatId \<and>
     handleSend cid model clk clk' outcome s =
       s\<lparr> messages :=
            filter (\<lambda>message. msg_id message \<noteq> temp_user_message_id clk) (messages s)
              @ [lastMessage clk (inputText s) botResponse, botMessage clk' botResponse],
          inputText := [],
          isLoading := False,
          requests := requests s @ [sendRequest chatId (inputText s) model] \<rparr>"
proof -
  from handleSend_begin_run [OF assms(1), of model clk]
  obtain chatId where c: "cid = Some chatId"
    and b: "handleSend_begin cid model clk s =
       s\<lparr> messages := messages s @ [userMessage clk (inputText s)],
          inputText := [],
          isLoading := True,
          requests := requests s @ [sendRequest chatId (inputText s) model] \<rparr>"
    by blast
  from assms(2) obtain response where r: "await_ok outcome = Inr response"
    and j: "json_result response = Inr botResponse"
    by (auto simp add: fetch_json_def split: sum.splits)
  from assms(1) r j have "handleSend cid model clk clk' outcome s =
       s\<lparr> messages :=
            filter (\<lambda>message. msg_id message \<noteq> temp_user_message_id clk) (messages s)
              @ [lastMessage clk (inputText s) botResponse, botMessage clk' botResponse],
          inputText := [],
          isLoading := False,
          requests := requests s @ [sendRequest chatId (inputText s) model] \<rparr>"
    by (simp add: handleSend_def handleSend_settle_def handleSend_try_def b Let_def)
  with c show ?thesis by blast
qed

lemma handleSend_failure:
  assumes "\<not> handleSend_returns cid s"
    and "fetch_json outcome = Inl e"
  shows "\<exists>chatId. cid = Some chatId \<and>
     handleSend cid model clk clk' outcome s =
       s\<lparr> messages := messages s @ [userMessage clk (inputText s), sendFailedMessage clk'],
          inputText := [],
          isLoading := False,
          requests := requests s @ [sendRequest chatId (inputText s) model] \<rparr>"
proof -
  from handleSend_begin_run [OF assms(1), of model clk]
  obtain chatId where c: "cid = Some chatId"
    and b: "handleSend_begin cid model clk s =
       s\<lparr> messages := messages s @ [userMessage clk (inputText s)],
          inputText := [],
          isLoading := True,
          requests := requests s @ [sendRequest chatId (inputText s) model] \<rparr>"
    by blast
  from assms(2) have "\<exists>e. handleSend_try clk clk' outcome s
      (handleSend_begin cid model clk s) = Inl e"
    by (auto simp add: fetch_json_def handleSend_try_def split: sum.splits)
  with assms(1) have "handleSend cid model clk clk' outcome s =
       s\<lparr> messages := messages s @ [userMessage clk (inputText s), sendFailedMessage clk'],
          inputText := [],
          isLoading := False,
          requests := requests s @ [sendRequest chatId (inputText s) model] \<rparr>"
    by (auto simp add: handleSend_def handleSend_settle_def b)
  with c show ?thesis by blast
qed

lemma handleSend_blocked:
  assumes "handleSend_returns cid s"
  shows "handleSend_begin cid model clk s = s"
    and "handleSend cid model clk clk' outcome s = s"
  using assms by (simp_all add: handleSend_def handleSend_settle_def handleSend_begin_def)

lemma fresh_panel_sends: "\<not> handleSend_returns (Some ''c1'') (fresh_panel ''hi'')"
  by code_simp

lemma answered_json: "fetch_json (answered body) = Inr body"
  by (simp add: fetch_json_def answered_def await_ok_def ok_def)

text \<open>
  Claim C1, as amended. For every send of a non-blank input in a selected chat, with no send
  in flight, whose POST request succeeds: \<^verbatim>\<open>handleSend\<close> first appends a user message
  whose id is the temporary id; the final list is the pre-send list without any message
  carrying the temporary id, followed by a user message with the server-assigned
  \<^verbatim>\<open>user_message_id\<close> (content and timestamp of the optimistic message) and the bot
  response message, whatever state \<^term>\<open>cur\<close> the response finds, since the list is
  built from the list of the render. It is the pre-send list extended by these two messages
  when no pre-send message carries the temporary id, and it holds no message with the
  temporary id when neither server-assigned id equals it.
\<close>

theorem handleSend_reconciles:
  assumes "\<not> handleSend_returns cid s"
    and "fetch_json outcome = Inr botResponse"
  shows "msg_id (userMessage clk (inputText s)) = temp_user_message_id clk
     \<and> messages (handleSend_begin cid model clk s) = messages s @ [userMessage clk (inputText s)]
     \<and> messages (handleSend cid model clk clk' outcome s) =
         filter (\<lambda>message. msg_id message \<noteq> temp_user_message_id clk) (messages s)
           @ [lastMessage clk (inputText s) botResponse, botMessage clk' botResponse]
     \<and> messages (handleSend_settle cid clk clk' outcome s cur) =
         filter (\<lambda>message. msg_id message \<noteq> temp_user_message_id clk) (messages s)
           @ [lastMessage clk (inputText s) botResponse, botMessage clk' botResponse]
     \<and> (temp_user_message_id clk \<notin> msg_id ` set (messages s) \<longrightarrow>
          messages (handleSend cid model clk clk' outcome s) =
            messages s @ [lastMessage clk (inputText s) botResponse, botMessage clk' botResponse])
     \<and> (bot_user_message_id botResponse \<noteq> temp_user_message_id clk
          \<and> bot_id botResponse \<noteq> temp_user_message_id clk \<longrightarrow>
          temp_user_message_id clk \<notin> msg_id ` set (messages (handleSend cid model clk clk' outcome s)))
     \<and> lastMessage clk (inputText s) botResponse =
         (userMessage clk (inputText s))\<lparr>msg_id := bot_user_message_id botResponse\<rparr>
     \<and> msg_id (botMessage clk' botResponse) = bot_id botResponse
     \<and> msg_content (botMessage clk' botResponse) = bot_content botResponse"
proof -
  let ?temp = "temp_user_message_id clk"
  let ?new = "[lastMessage clk (inputText s) botResponse, botMessage clk' botResponse]"
  from handleSend_begin_run [OF assms(1), of model clk]
  have first: "messages (handleSend_begin cid model clk s)
      = messages s @ [userMessage clk (inputText s)]"
    by auto
  from handleSend_success [OF assms, of model clk clk']
  have final: "messages (handleSend cid model clk clk' outcome s)
      = filter (\<lambda>message. msg_id message \<noteq> ?temp) (messages s) @ ?new"
    by auto
  from assms(2) obtain response where "await_ok outcome = Inr response"
    and "json_result response = Inr botResponse"
    by (auto simp add: fetch_json_def split: sum.splits)
  with assms(1) have late: "messages (handleSend_settle cid clk clk' outcome s cur)
      = filter (\<lambda>message. msg_id message \<noteq> ?temp) (messages s) @ ?new"
    by (simp add: handleSend_settle_def handleSend_try_def)
  have kept: "?temp \<notin> msg_id ` set (messages s) \<longrightarrow>
      messages (handleSend cid model clk clk' outcome s) = messages s @ ?new"
    by (simp add: final filter_key_absent)
  have gone: "bot_user_message_id botResponse \<noteq> ?temp \<and> bot_id botResponse \<noteq> ?temp \<longrightarrow>
      ?temp \<notin> msg_id ` set (messages (handleSend cid model clk clk' outcome s))"
    by (auto simp add: final lastMessage_def botMessage_def)
  have same: "lastMessage clk (inputText s) botResponse =
      (userMessage clk (inputText s))\<lparr>msg_id := bot_user_message_id botResponse\<rparr>"
    by (simp add: lastMessage_def userMessage_def)
  have bot: "msg_id (botMessage clk' botResponse) = bot_id botResponse
      \<and> msg_content (botMessage clk' botResponse) = bot_content botResponse"
    by (simp add: botMessage_def)
  have temp: "msg_id (userMessage clk (inputText s)) = ?temp"
    by (simp add: userMessage_def)
  from temp first final late kept gone same bot show ?thesis
    by blast
qed

theorem handleSend_reconciles_witness:
  "\<not> handleSend_returns (Some ''c1'') (fresh_panel ''hi'')
   \<and> fetch_json (answered (reply ''u1'' ''b1'')) = Inr (reply ''u1'' ''b1'')
   \<and> messages (handleSend_begin (Some ''c1'') ''qwen-turbo'' (clock_at 5) (fresh_panel ''hi''))
       = [userMessage (clock_at 5) ''hi'']
   \<and> messages (handleSend (Some ''c1'') ''qwen-turbo'' (clock_at 5) (clock_at 6)
        (answered (reply ''u1'' ''b1'')) (fresh_panel ''hi''))
       = [lastMessage (clock_at 5) ''hi'' (reply ''u1'' ''b1''),
          botMessage (clock_at 6) (reply ''u1'' ''b1'')]
   \<and> temp_user_message_id (clock_at 5) \<notin> msg_id ` set (messages
        (handleSend (Some ''c1'') ''qwen-turbo'' (clock_at 5) (clock_at 6)
           (answered (reply ''u1'' ''b1'')) (fresh_panel ''hi'')))"
proof -
  have ids: "bot_user_message_id (reply ''u1'' ''b1'') \<noteq> temp_user_message_id (clock_at 5)
      \<and> bot_id (reply ''u1'' ''b1'') \<noteq> temp_user_message_id (clock_at 5)"
    by (simp add: reply_def temp_user_message_id_def)
  have none: "temp_user_message_id (clock_at 5) \<notin> msg_id ` set (messages (fresh_panel ''hi''))"
    by (simp add: fresh_panel_def)
  have typed: "inputText (fresh_panel ''hi'') = ''hi''" and list: "messages (fresh_panel ''hi'') = []"
    by (simp_all add: fresh_panel_def)
  from handleSend_reconciles
      [OF fresh_panel_sends answered_json [of "reply ''u1'' ''b1''"],
       of "clock_at 5" "''qwen-turbo''" "clock_at 6"] ids none
  show ?thesis
    by (auto simp add: fresh_panel_sends answered_json typed list)
qed

text \<open>
  The claim as stated fails in two ways. A send in the same clock reading as an earlier failed
  send finds the message that send left behind under the same temporary id, and drops it:
  the final list is not the pre-send list extended by the two messages. And a backend that
  answers with the temporary id as \<^verbatim>\<open>user_message_id\<close> puts a message with that id into
  the final list.
\<close>

theorem handleSend_reconciles_counterexample:
  "\<not> handleSend_returns (Some ''c1'') after_failed_send
   \<and> fetch_json (answered (reply ''u1'' ''b1'')) = Inr (reply ''u1'' ''b1'')
   \<and> messages (handleSend (Some ''c1'') ''qwen-turbo'' (clock_at 5) (clock_at 7)
        (answered (reply ''u1'' ''b1'')) after_failed_send)
      \<noteq> messages after_failed_send
          @ [lastMessage (clock_at 5) (inputText after_failed_send) (reply ''u1'' ''b1''),
             botMessage (clock_at 7) (reply ''u1'' ''b1'')]
   \<and> temp_user_message_id (clock_at 5) = ''FAKEID-TEMP-MESSAGE5''
   \<and> \<not> handleSend_returns (Some ''c1'') (fresh_panel ''hi'')
   \<and> temp_user_message_id (clock_at 5)
       \<in> msg_id ` set (messages
            (handleSend (Some ''c1'') ''qwen-turbo'' (clock_at 5) (clock_at 6)
               (answered (reply ''FAKEID-TEMP-MESSAGE5'' ''b1'')) (fresh_panel ''hi'')))"
  by code_simp

lemma rejected_json: "fetch_json Rejected = Inl NetworkError"
  by (simp add: fetch_json_def await_ok_def)




section \<open>Fetching the messages, and failures of requests\<close>

lemma map_throwing_convert:
  "\<exists>data. map_throwing (convertHttpResponseToMessage JSON_parse) all_messages = Inr data
     \<and> map msg_id data = map http_id all_messages"
proof (induction all_messages)
  case Nil
  show ?case by simp
next
  case (Cons h rest)
  from convert_basic [of JSON_parse h]
  obtain m where m: "convertHttpResponseToMessage JSON_parse h = Inr m" and "msg_id m = http_id h"
    by auto
  with Cons show ?case
    by auto
qed

lemma fetchMessages_success:
  assumes "fetch_json outcome = Inr all_messages"
  shows "\<exists>data. map msg_id data = map http_id all_messages
     \<and> fetchMessages JSON_parse (Some chatId) clk outcome s =
         s\<lparr>requests := requests s @ [fetchMessagesRequest chatId], messages := data\<rparr>"
proof -
  from assms obtain response where r: "outcome = Resolved response" "ok response"
      "json_result response = Inr all_messages"
    by (auto simp add: fetch_json_def await_ok_def split: fetch_outcome.splits if_splits)
  from map_throwing_convert [of JSON_parse all_messages]
  obtain data where d: "map_throwing (convertHttpResponseToMessage JSON_parse) all_messages = Inr data"
      "map msg_id data = map http_id all_messages"
    by blast
  from r d have "fetchMessages JSON_parse (Some chatId) clk outcome s =
         s\<lparr>requests := requests s @ [fetchMessagesRequest chatId], messages := data\<rparr>"
    by (simp add: fetchMessages_def fetchMessages_try_def)
  with d(2) show ?thesis by blast
qed

lemma fetchMessages_failure:
  assumes "fetch_json outcome = Inl e"
  shows "fetchMessages JSON_parse (Some chatId) clk outcome s =
         s\<lparr>requests := requests s @ [fetchMessagesRequest chatId],
           hrefs := hrefs s @ (case await_ok outcome of Inl (HttpError n) \<Rightarrow> [''/''] | _ \<Rightarrow> []),
           messages := [networkIssueMessage clk]\<rparr>"
proof (cases outcome)
  case Rejected
  then show ?thesis
    by (simp add: fetchMessages_def fetchMessages_try_def await_ok_def)
next
  case (Resolved response)
  show ?thesis
  proof (cases "ok response")
    case True
    with Resolved assms have "json_result response = Inl e"
      by (simp add: fetch_json_def await_ok_def)
    with Resolved True show ?thesis
      by (simp add: fetchMessages_def fetchMessages_try_def await_ok_def)
  next
    case False
    with Resolved show ?thesis
      by (simp add: fetchMessages_def fetchMessages_try_def await_ok_def)
  qed
qed

lemma synthetic_messages:
  "msg_sender (networkIssueMessage clk) = ''bot''"
  "prefix ''FAKEID'' (msg_id (networkIssueMessage clk))"
  "msg_sender (sendFailedMessage clk) = ''bot''"
  "prefix ''FAKEID'' (msg_id (sendFailedMessage clk))"
  by (simp_all add: networkIssueMessage_def sendFailedMessage_def)

lemma rejected_ok: "await_ok Rejected = Inl NetworkError"
  by (simp add: await_ok_def)

text \<open>
  Claim C4, as amended. A failing request of the message fetch, the message send, the chat
  delete and the message delete is caught in its handler, which issues that one request
  and no other. A failed message fetch replaces the message list by a single synthetic bot
  message, after assigning \<^verbatim>\<open>window.location.href = "/"\<close> when a response with a status
  outside 200 to 299 arrived; a failed send appends a single synthetic bot message to the
  list, which holds the optimistic message; a failed chat delete or message delete opens one
  alert box and leaves the lists and the selection as they were.
\<close>

theorem failures_caught_and_shown:
  "(fetch_json fetchOutcome = Inl e1 \<longrightarrow>
      (let s' = fetchMessages JSON_parse (Some chatId) clk fetchOutcome s in
         requests s' = requests s @ [fetchMessagesRequest chatId]
         \<and> messages s' = [networkIssueMessage clk]
         \<and> alerts s' = alerts s
         \<and> hrefs s' = hrefs s @
             (case await_ok fetchOutcome of Inl (HttpError n) \<Rightarrow> [''/''] | _ \<Rightarrow> [])))
   \<and> (\<not> handleSend_returns cid s \<and> fetch_json sendOutcome = Inl e2 \<longrightarrow>
      (let s' = handleSend cid model clk clk' sendOutcome s in
         length (requests s') = length (requests s) + 1
         \<and> butlast (requests s') = requests s
         \<and> req_method (last (requests s')) = POST
         \<and> messages s' = messages s @ [userMessage clk (inputText s), sendFailedMessage clk']
         \<and> alerts s' = alerts s))
   \<and> (await_ok deleteOutcome = Inl e3 \<longrightarrow>
      (let s' = handleDeleteMessageClick messageId deleteOutcome s in
         requests s' = requests s @ [deleteMessageRequest messageId]
         \<and> alerts s' = alerts s @ [''Failed to delete message. Please try again.'']
         \<and> messages s' = messages s))
   \<and> (await_ok chatOutcome = Inl e4 \<longrightarrow>
      (let p' = handleDeleteClick chatId' True chatOutcome p in
         requests p' = requests p @ [deleteChatRequest chatId']
         \<and> alerts p' = alerts p @ [''Failed to delete chat. Please try again.'']
         \<and> availableChats p' = availableChats p
         \<and> currentChatId p' = currentChatId p))
   \<and> msg_sender (networkIssueMessage clk) = ''bot''
   \<and> prefix ''FAKEID'' (msg_id (networkIssueMessage clk))
   \<and> msg_sender (sendFailedMessage clk') = ''bot''
   \<and> prefix ''FAKEID'' (msg_id (sendFailedMessage clk'))"
proof -
  have fetch: "fetch_json fetchOutcome = Inl e1 \<longrightarrow>
      (let s' = fetchMessages JSON_parse (Some chatId) clk fetchOutcome s in
         requests s' = requests s @ [fetchMessagesRequest chatId]
         \<and> messages s' = [networkIssueMessage clk]
         \<and> alerts s' = alerts s
         \<and> hrefs s' = hrefs s @
             (case await_ok fetchOutcome of Inl (HttpError n) \<Rightarrow> [''/''] | _ \<Rightarrow> []))"
    by (simp add: fetchMessages_failure Let_def)
  have send: "\<not> handleSend_returns cid s \<and> fetch_json sendOutcome = Inl e2 \<longrightarrow>
      (let s' = handleSend cid model clk clk' sendOutcome s in
         length (requests s') = length (requests s) + 1
         \<and> butlast (requests s') = requests s
         \<and> req_method (last (requests s')) = POST
         \<and> messages s' = messages s @ [userMessage clk (inputText s), sendFailedMessage clk']
         \<and> alerts s' = alerts s)"
  proof (intro impI, elim conjE)
    assume a: "\<not> handleSend_returns cid s" "fetch_json sendOutcome = Inl e2"
    from handleSend_failure [OF a, of model clk clk']
    obtain c where run: "handleSend cid model clk clk' sendOutcome s =
       s\<lparr> messages := messages s @ [userMessage clk (inputText s), sendFailedMessage clk'],
          inputText := [],
          isLoading := False,
          requests := requests s @ [sendRequest c (inputText s) model] \<rparr>"
      by blast
    show "let s' = handleSend cid model clk clk' sendOutcome s in
         length (requests s') = length (requests s) + 1
         \<and> butlast (requests s') = requests s
         \<and> req_method (last (requests s')) = POST
         \<and> messages s' = messages s @ [userMessage clk (inputText s), sendFailedMessage clk']
         \<and> alerts s' = alerts s"
      by (simp add: run Let_def sendRequest_def)
  qed
  have del: "await_ok deleteOutcome = Inl e3 \<longrightarrow>
      (let s' = handleDeleteMessageClick messageId deleteOutcome s in
         requests s' = requests s @ [deleteMessageRequest messageId]
         \<and> alerts s' = alerts s @ [''Failed to delete message. Please try again.'']
         \<and> messages s' = messages s)"
    by (simp add: handleDeleteMessageClick_def Let_def)
  have chat: "await_ok chatOutcome = Inl e4 \<longrightarrow>
      (let p' = handleDeleteClick chatId' True chatOutcome p in
         requests p' = requests p @ [deleteChatRequest chatId']
         \<and> alerts p' = alerts p @ [''Failed to delete chat. Please try again.'']
         \<and> availableChats p' = availableChats p
         \<and> currentChatId p' = currentChatId p)"
    by (simp add: handleDeleteClick_def handleDeleteClick_begin_def
          handleDeleteClick_settle_def Let_def)
  from fetch send del chat synthetic_messages [of clk] synthetic_messages [of clk']
  show ?thesis
    by blast
qed

theorem failures_caught_and_shown_witness:
  "fetch_json (Rejected :: MessageHttpResponse list fetch_outcome) = Inl NetworkError
   \<and> messages (fetchMessages (\<lambda>s. Inl SyntaxError) (Some ''c1'') (clock_at 5) Rejected
        (fresh_panel ''hi'')) = [networkIssueMessage (clock_at 5)]
   \<and> length (requests (fetchMessages (\<lambda>s. Inl SyntaxError) (Some ''c1'') (clock_at 5) Rejected
        (fresh_panel ''hi''))) = 1
   \<and> \<not> handleSend_returns (Some ''c1'') (fresh_panel ''hi'')
   \<and> fetch_json (Rejected :: BotResponse fetch_outcome) = Inl NetworkError
   \<and> messages (handleSend (Some ''c1'') ''qwen-turbo'' (clock_at 5) (clock_at 6) Rejected
        (fresh_panel ''hi'')) = [userMessage (clock_at 5) ''hi'', sendFailedMessage (clock_at 6)]
   \<and> length (requests (handleSend (Some ''c1'') ''qwen-turbo'' (clock_at 5) (clock_at 6) Rejected
        (fresh_panel ''hi''))) = 1
   \<and> await_ok (Rejected :: unit fetch_outcome) = Inl NetworkError
   \<and> alerts (handleDeleteMessageClick ''m1'' Rejected (fresh_panel ''hi''))
       = [''Failed to delete message. Please try again.'']
   \<and> length (requests (handleDeleteMessageClick ''m1'' Rejected (fresh_panel ''hi''))) = 1
   \<and> alerts (handleDeleteClick ''c2'' True Rejected fresh_page)
       = [''Failed to delete chat. Please try again.'']
   \<and> length (requests (handleDeleteClick ''c2'' True Rejected fresh_page)) = 1"
proof -
  have panel: "messages (fresh_panel t) = []" "requests (fresh_panel t) = []"
      "alerts (fresh_panel t) = []" "inputText (fresh_panel t) = t" for t
    by (simp_all add: fresh_panel_def)
  have page: "requests fresh_page = []" "alerts fresh_page = []"
    by (simp_all add: fresh_page_def)
  from failures_caught_and_shown
      [where fetchOutcome = Rejected and JSON_parse = "\<lambda>s. Inl SyntaxError"
         and chatId = "''c1''" and clk = "clock_at 5" and s = "fresh_panel ''hi''"
         and cid = "Some ''c1''" and sendOutcome = Rejected and model = "''qwen-turbo''"
         and clk' = "clock_at 6" and deleteOutcome = Rejected and messageId = "''m1''"
         and chatOutcome = Rejected and chatId' = "''c2''" and p = fresh_page
         and ?e1.0 = NetworkError and ?e2.0 = NetworkError and ?e3.0 = NetworkError
         and ?e4.0 = NetworkError]
  show ?thesis
    apply (simp add: rejected_json rejected_ok fresh_panel_sends Let_def panel page)
    done
qed

text \<open>
  The claim as stated fails for the message fetch: on the panel that shows the two messages of
  an answered send, a rejected fetch for another chat leaves the error message alone in the
  list, not appended to it, and opens no alert; a response with status 500 also sends the
  browser to the home page.
\<close>

theorem failed_fetch_replaces_counterexample:
  "fetch_json (Rejected :: MessageHttpResponse list fetch_outcome) = Inl NetworkError
   \<and> map msg_id (messages after_send) = [''u1'', ''b1'']
   \<and> map msg_id (messages (fetchMessages (\<lambda>s. Inl SyntaxError) (Some ''c2'') (clock_at 9)
        Rejected after_send)) = [''FAKEID-MESSAGE-FAILED9'']
   \<and> alerts (fetchMessages (\<lambda>s. Inl SyntaxError) (Some ''c2'') (clock_at 9)
        Rejected after_send) = []
   \<and> hrefs (fetchMessages (\<lambda>s. Inl SyntaxError) (Some ''c2'') (clock_at 9)
        (Resolved \<lparr> status = 500, json_result = Inl SyntaxError \<rparr>) after_send) = [''/'']"
  by code_simp

section \<open>Requests issued by a handler\<close>

lemma fetchMessages_requests:
  "requests (fetchMessages JSON_parse (Some chatId) clk outcome s) =
     requests s @ [fetchMessagesRequest chatId]"
proof (cases "fetch_json outcome")
  case (Inl e)
  then show ?thesis
    by (simp add: fetchMessages_failure)
next
  case (Inr all_messages)
  from fetchMessages_success [OF Inr, of JSON_parse chatId clk s]
  show ?thesis
    by auto
qed

lemma handleSend_requests:
  "requests (handleSend cid model clk clk' outcome s) =
     requests (handleSend_begin cid model clk s)"
proof (cases "handleSend_returns cid s")
  case True
  then show ?thesis
    by (simp add: handleSend_blocked)
next
  case False
  show ?thesis
  proof (cases "fetch_json outcome")
    case (Inl e)
    from handleSend_failure [OF False Inl, of model clk clk']
      handleSend_begin_run [OF False, of model clk]
    show ?thesis by auto
  next
    case (Inr b)
    from handleSend_success [OF False Inr, of model clk clk']
      handleSend_begin_run [OF False, of model clk]
    show ?thesis by auto
  qed
qed

lemma send_in_flight_loading: "isLoading send_in_flight"
  by code_simp

text \<open>
  Claim C6, as amended. \<^verbatim>\<open>handleSend\<close> issues no request and leaves all state unchanged
  when a send is in flight, when the input is blank or when no chat is selected; otherwise it
  issues exactly one request, the POST of its synchronous part, and none after the response.
  Each call of the message delete, of the confirmed chat delete, of the message fetch for a
  selected chat and of the section fetch issues exactly one request. \<^verbatim>\<open>fetchData\<close> of the
  playground issues two requests in its synchronous part, the video and its thumbnails, so
  both are outstanding at once, and none later.
\<close>

theorem requests_per_action:
  "(handleSend_returns cid s \<longrightarrow>
      handleSend_begin cid model clk s = s \<and> handleSend cid model clk clk' sendOutcome s = s)
   \<and> (isLoading s \<or> trim (inputText s) = [] \<or> cid = None \<longrightarrow> handleSend_returns cid s)
   \<and> (\<not> handleSend_returns cid s \<longrightarrow>
        length (requests (handleSend_begin cid model clk s)) = length (requests s) + 1
        \<and> butlast (requests (handleSend_begin cid model clk s)) = requests s
        \<and> req_method (last (requests (handleSend_begin cid model clk s))) = POST)
   \<and> requests (handleSend cid model clk clk' sendOutcome s) =
       requests (handleSend_begin cid model clk s)
   \<and> requests (handleDeleteMessageClick messageId deleteOutcome s) =
       requests s @ [deleteMessageRequest messageId]
   \<and> requests (handleDeleteClick chatId confirmed chatOutcome p) =
       (if confirmed then requests p @ [deleteChatRequest chatId] else requests p)
   \<and> requests (fetchMessages JSON_parse chat clk fetchOutcome s) =
       (case chat of None \<Rightarrow> requests s | Some c \<Rightarrow> requests s @ [fetchMessagesRequest c])
   \<and> length (requests (fetchSections videoId sectionsOutcome ls)) = length (requests ls) + 1
   \<and> length (requests (fetchData_begin vid pg)) = length (requests pg) + 2
   \<and> butlast (butlast (requests (fetchData_begin vid pg))) = requests pg
   \<and> requests (fetchData vid videoOutcome thumbsOutcome pg) = requests (fetchData_begin vid pg)"
proof -
  have guard: "handleSend_returns cid s \<longrightarrow>
      handleSend_begin cid model clk s = s \<and> handleSend cid model clk clk' sendOutcome s = s"
    by (simp add: handleSend_blocked)
  have cases: "isLoading s \<or> trim (inputText s) = [] \<or> cid = None \<longrightarrow> handleSend_returns cid s"
    by (auto simp add: handleSend_returns_def truthy_def)
  have one: "\<not> handleSend_returns cid s \<longrightarrow>
        length (requests (handleSend_begin cid model clk s)) = length (requests s) + 1
        \<and> butlast (requests (handleSend_begin cid model clk s)) = requests s
        \<and> req_method (last (requests (handleSend_begin cid model clk s))) = POST"
  proof
    assume a: "\<not> handleSend_returns cid s"
    from handleSend_begin_run [OF a, of model clk]
    show "length (requests (handleSend_begin cid model clk s)) = length (requests s) + 1
        \<and> butlast (requests (handleSend_begin cid model clk s)) = requests s
        \<and> req_method (last (requests (handleSend_begin cid model clk s))) = POST"
      by (auto simp add: sendRequest_def)
  qed
  have del: "requests (handleDeleteMessageClick messageId deleteOutcome s) =
       requests s @ [deleteMessageRequest messageId]"
    by (simp add: handleDeleteMessageClick_def Let_def split: sum.split)
  have chatdel: "requests (handleDeleteClick chatId confirmed chatOutcome p) =
       (if confirmed then requests p @ [deleteChatRequest chatId] else requests p)"
    by (simp add: handleDeleteClick_def handleDeleteClick_begin_def
          handleDeleteClick_settle_def handleDeleteChat_def Let_def split: sum.split)
  have fetch: "requests (fetchMessages JSON_parse chat clk fetchOutcome s) =
       (case chat of None \<Rightarrow> requests s | Some c \<Rightarrow> requests s @ [fetchMessagesRequest c])"
  proof (cases chat)
    case None
    then show ?thesis by (simp add: fetchMessages_def)
  next
    case (Some c)
    then show ?thesis by (simp add: fetchMessages_requests)
  qed
  have sect: "length (requests (fetchSections videoId sectionsOutcome ls)) = length (requests ls) + 1"
    by (simp add: fetchSections_def Let_def split: fetch_outcome.split)
  have two: "length (requests (fetchData_begin vid pg)) = length (requests pg) + 2"
    "butlast (butlast (requests (fetchData_begin vid pg))) = requests pg"
    by (simp_all add: fetchData_begin_def butlast_append)
  have settle: "requests (fetchData vid videoOutcome thumbsOutcome pg) = requests (fetchData_begin vid pg)"
    by (auto simp add: fetchData_def fetchData_settle_def fetchData_try_def
          split: sum.splits fetch_outcome.splits)
  from guard cases one handleSend_requests [of cid model clk clk' sendOutcome s]
    del chatdel fetch sect two settle
  show ?thesis
    by blast
qed

theorem requests_per_action_witness:
  "isLoading send_in_flight
   \<and> handleSend (Some ''c1'') ''qwen-turbo'' (clock_at 7) (clock_at 8)
        (answered (reply ''u2'' ''b2'')) send_in_flight = send_in_flight
   \<and> \<not> handleSend_returns (Some ''c1'') (fresh_panel ''hi'')
   \<and> length (requests (handleSend_begin (Some ''c1'') ''qwen-turbo'' (clock_at 5)
        (fresh_panel ''hi''))) = 1"
proof -
  have r: "requests (fresh_panel ''hi'') = []"
    by (simp add: fresh_panel_def)
  from requests_per_action
      [where cid = "Some ''c1''" and s = send_in_flight and model = "''qwen-turbo''"
         and clk = "clock_at 7" and clk' = "clock_at 8"
         and sendOutcome = "answered (reply ''u2'' ''b2'')"]
    requests_per_action
      [where cid = "Some ''c1''" and s = "fresh_panel ''hi''" and model = "''qwen-turbo''"
         and clk = "clock_at 5"]
  show ?thesis
    by (simp add: send_in_flight_loading fresh_panel_sends r)
qed

text \<open>
  The claim as stated fails for the playground: on a state with no request issued yet, the
  synchronous part of \<^verbatim>\<open>fetchData\<close> issues two.
\<close>

theorem fetchData_counterexample:
  "requests fresh_playground = []
   \<and> map req_url (requests (fetchData_begin ''v1'' fresh_playground))
       = [''/api/videos/v1/'', ''/api/videos/v1/thumbnails/'']
   \<and> length (requests (fetchData_begin ''v1'' fresh_playground)) = 2"
  by code_simp

section \<open>Message ids\<close>

lemma temp_id_not_failed_id:
  "temp_user_message_id clk \<noteq> msg_id (sendFailedMessage clk')"
  by (simp add: temp_user_message_id_def sendFailedMessage_def)

lemma distinct_ids_filter:
  "distinct (map msg_id xs) \<Longrightarrow> distinct (map msg_id (filter P xs))"
  by (induction xs) auto

text \<open>
  Claim C3, as amended. Deleting a message keeps the message ids of the list unique. The
  optimistic append keeps them unique when the temporary id is not in the list; the
  reconciliation after an answered send keeps them unique when the two server-assigned ids
  differ from each other and from the ids of the pre-send list; the error append after a
  failed send keeps them unique when neither the temporary id nor the id of the error message
  is in the list. An answered fetch installs exactly the ids the backend sent, in their order;
  a failed fetch leaves one message and an unselected chat none. The requests of the fetch
  and of the send carry the chat id, and the send the input text and the model name, but no
  message id. The delete request carries the id of the clicked message, whatever it is.
\<close>

theorem message_ids:
  "(distinct (map msg_id (messages s)) \<longrightarrow>
      distinct (map msg_id (messages (handleDeleteMessageClick messageId deleteOutcome s))))
   \<and> (distinct (map msg_id (messages s)) \<and> temp_user_message_id clk \<notin> msg_id ` set (messages s)
        \<longrightarrow> distinct (map msg_id (messages (handleSend_begin cid model clk s))))
   \<and> (distinct (map msg_id (messages s)) \<and> fetch_json sendOutcome = Inr botResponse
        \<and> bot_user_message_id botResponse \<noteq> bot_id botResponse
        \<and> bot_user_message_id botResponse \<notin> msg_id ` set (messages s)
        \<and> bot_id botResponse \<notin> msg_id ` set (messages s)
        \<longrightarrow> distinct (map msg_id (messages (handleSend cid model clk clk' sendOutcome s))))
   \<and> (distinct (map msg_id (messages s)) \<and> fetch_json failedSend = Inl e
        \<and> temp_user_message_id clk \<notin> msg_id ` set (messages s)
        \<and> msg_id (sendFailedMessage clk') \<notin> msg_id ` set (messages s)
        \<longrightarrow> distinct (map msg_id (messages (handleSend cid model clk clk' failedSend s))))
   \<and> (fetch_json fetchOutcome = Inr all_messages \<longrightarrow>
        map msg_id (messages (fetchMessages JSON_parse (Some chatId) clk fetchOutcome s))
          = map http_id all_messages)
   \<and> (fetch_json failedFetch = Inl e' \<longrightarrow>
        messages (fetchMessages JSON_parse (Some chatId) clk failedFetch s)
          = [networkIssueMessage clk])
   \<and> messages (fetchMessages JSON_parse None clk fetchOutcome s) = []
   \<and> requests (fetchMessages JSON_parse (Some chatId) clk fetchOutcome s) =
        requests s @ [fetchMessagesRequest chatId]
   \<and> (\<not> handleSend_returns (Some chatId) s \<longrightarrow>
        requests (handleSend (Some chatId) model clk clk' sendOutcome s) =
          requests s @ [sendRequest chatId (inputText s) model])
   \<and> requests (handleDeleteMessageClick messageId deleteOutcome s) =
        requests s @ [deleteMessageRequest messageId]
   \<and> req_url (deleteMessageRequest messageId) = API_PREFIX @ ''/api/message/'' @ messageId"
proof -
  let ?ids = "\<lambda>t. map msg_id (messages t)"
  have del: "distinct (?ids s) \<longrightarrow>
      distinct (?ids (handleDeleteMessageClick messageId deleteOutcome s))"
    by (simp add: handleDeleteMessageClick_def Let_def distinct_ids_filter split: sum.split)
  have opt: "distinct (?ids s) \<and> temp_user_message_id clk \<notin> msg_id ` set (messages s)
        \<longrightarrow> distinct (?ids (handleSend_begin cid model clk s))"
  proof (cases "handleSend_returns cid s")
    case True
    then show ?thesis by (simp add: handleSend_blocked)
  next
    case False
    from handleSend_begin_run [OF False, of model clk]
    show ?thesis by (auto simp add: userMessage_def)
  qed
  have rec: "distinct (?ids s) \<and> fetch_json sendOutcome = Inr botResponse
        \<and> bot_user_message_id botResponse \<noteq> bot_id botResponse
        \<and> bot_user_message_id botResponse \<notin> msg_id ` set (messages s)
        \<and> bot_id botResponse \<notin> msg_id ` set (messages s)
        \<longrightarrow> distinct (?ids (handleSend cid model clk clk' sendOutcome s))"
  proof (cases "handleSend_returns cid s")
    case True
    then show ?thesis by (simp add: handleSend_blocked)
  next
    case False
    show ?thesis
    proof (intro impI, elim conjE)
      assume d: "distinct (?ids s)" and j: "fetch_json sendOutcome = Inr botResponse"
        and n: "bot_user_message_id botResponse \<noteq> bot_id botResponse"
          "bot_user_message_id botResponse \<notin> msg_id ` set (messages s)"
          "bot_id botResponse \<notin> msg_id ` set (messages s)"
      from handleSend_success [OF False j, of model clk clk']
      have m: "messages (handleSend cid model clk clk' sendOutcome s) =
          filter (\<lambda>message. msg_id message \<noteq> temp_user_message_id clk) (messages s)
            @ [lastMessage clk (inputText s) botResponse, botMessage clk' botResponse]"
        by auto
      from d n show "distinct (?ids (handleSend cid model clk clk' sendOutcome s))"
        by (auto simp add: m distinct_ids_filter lastMessage_def botMessage_def)
    qed
  qed
  have err: "distinct (?ids s) \<and> fetch_json failedSend = Inl e
        \<and> temp_user_message_id clk \<notin> msg_id ` set (messages s)
        \<and> msg_id (sendFailedMessage clk') \<notin> msg_id ` set (messages s)
        \<longrightarrow> distinct (?ids (handleSend cid model clk clk' failedSend s))"
  proof (cases "handleSend_returns cid s")
    case True
    then show ?thesis by (simp add: handleSend_blocked)
  next
    case False
    show ?thesis
    proof (intro impI, elim conjE)
      assume d: "distinct (?ids s)" and j: "fetch_json failedSend = Inl e"
        and n: "temp_user_message_id clk \<notin> msg_id ` set (messages s)"
          "msg_id (sendFailedMessage clk') \<notin> msg_id ` set (messages s)"
      from handleSend_failure [OF False j, of model clk clk']
      have m: "messages (handleSend cid model clk clk' failedSend s) =
          messages s @ [userMessage clk (inputText s), sendFailedMessage clk']"
        by auto
      have u: "msg_id (userMessage clk (inputText s)) = temp_user_message_id clk"
        by (simp add: userMessage_def)
      from d n temp_id_not_failed_id [of clk clk']
      show "distinct (?ids (handleSend cid model clk clk' failedSend s))"
        by (auto simp add: m u)
    qed
  qed
  have got: "fetch_json fetchOutcome = Inr all_messages \<longrightarrow>
        ?ids (fetchMessages JSON_parse (Some chatId) clk fetchOutcome s) = map http_id all_messages"
  proof
    assume j: "fetch_json fetchOutcome = Inr all_messages"
    from fetchMessages_success [OF j, of JSON_parse chatId clk s]
    show "?ids (fetchMessages JSON_parse (Some chatId) clk fetchOutcome s) = map http_id all_messages"
      by auto
  qed
  have lost: "fetch_json failedFetch = Inl e' \<longrightarrow>
        messages (fetchMessages JSON_parse (Some chatId) clk failedFetch s)
          = [networkIssueMessage clk]"
    by (simp add: fetchMessages_failure)
  have none: "messages (fetchMessages JSON_parse None clk fetchOutcome s) = []"
    by (simp add: fetchMessages_def)
  have post: "\<not> handleSend_returns (Some chatId) s \<longrightarrow>
        requests (handleSend (Some chatId) model clk clk' sendOutcome s) =
          requests s @ [sendRequest chatId (inputText s) model]"
  proof
    assume a: "\<not> handleSend_returns (Some chatId) s"
    from handleSend_begin_run [OF a, of model clk]
    show "requests (handleSend (Some chatId) model clk clk' sendOutcome s) =
          requests s @ [sendRequest chatId (inputText s) model]"
      by (auto simp add: handleSend_requests)
  qed
  have delreq: "requests (handleDeleteMessageClick messageId deleteOutcome s) =
        requests s @ [deleteMessageRequest messageId]"
    by (simp add: handleDeleteMessageClick_def Let_def split: sum.split)
  have url: "req_url (deleteMessageRequest messageId) = API_PREFIX @ ''/api/message/'' @ messageId"
    by (simp add: deleteMessageRequest_def)
  from del opt rec err got lost none fetchMessages_requests [of JSON_parse chatId clk fetchOutcome s]
    post delreq url
  show ?thesis
    by blast
qed

theorem message_ids_witness:
  "distinct (map msg_id (messages after_send))
   \<and> distinct (map msg_id (messages (handleDeleteMessageClick ''u1'' (answered ()) after_send)))
   \<and> temp_user_message_id (clock_at 8) \<notin> msg_id ` set (messages after_send)
   \<and> distinct (map msg_id (messages
        (handleSend_begin (Some ''c1'') ''qwen-turbo'' (clock_at 8) after_send)))
   \<and> fetch_json (answered (reply ''u2'' ''b2'')) = Inr (reply ''u2'' ''b2'')
   \<and> distinct (map msg_id (messages
        (handleSend (Some ''c1'') ''qwen-turbo'' (clock_at 8) (clock_at 9)
           (answered (reply ''u2'' ''b2'')) after_send)))
   \<and> fetch_json (Rejected :: BotResponse fetch_outcome) = Inl NetworkError
   \<and> distinct (map msg_id (messages
        (handleSend (Some ''c1'') ''qwen-turbo'' (clock_at 8) (clock_at 9) Rejected after_send)))
   \<and> fetch_json (answered stored_messages) = Inr stored_messages
   \<and> map msg_id (messages (fetchMessages (\<lambda>s. Inl SyntaxError) (Some ''c1'') (clock_at 8)
        (answered stored_messages) after_send)) = [''u1'', ''b1'']
   \<and> fetch_json (Rejected :: MessageHttpResponse list fetch_outcome) = Inl NetworkError
   \<and> messages (fetchMessages (\<lambda>s. Inl SyntaxError) (Some ''c1'') (clock_at 8) Rejected
        after_send) = [networkIssueMessage (clock_at 8)]
   \<and> \<not> handleSend_returns (Some ''c1'') after_send
   \<and> requests (handleSend (Some ''c1'') ''qwen-turbo'' (clock_at 8) (clock_at 9)
        (answered (reply ''u2'' ''b2'')) after_send)
       = requests after_send @ [sendRequest ''c1'' ''more'' ''qwen-turbo'']"
proof -
  have d: "distinct (map msg_id (messages after_send))"
    by code_simp
  have t: "temp_user_message_id (clock_at 8) \<notin> msg_id ` set (messages after_send)"
    by code_simp
  have f: "msg_id (sendFailedMessage (clock_at 9)) \<notin> msg_id ` set (messages after_send)"
    by code_simp
  have n: "bot_user_message_id (reply ''u2'' ''b2'') \<noteq> bot_id (reply ''u2'' ''b2'')
      \<and> bot_user_message_id (reply ''u2'' ''b2'') \<notin> msg_id ` set (messages after_send)
      \<and> bot_id (reply ''u2'' ''b2'') \<notin> msg_id ` set (messages after_send)"
    by code_simp
  have g: "\<not> handleSend_returns (Some ''c1'') after_send"
    by code_simp
  have i: "inputText after_send = ''more''"
    by (simp add: after_send_def)
  have h: "map http_id stored_messages = [''u1'', ''b1'']"
    by (simp add: stored_messages_def)
  from message_ids
      [where s = after_send and messageId = "''u1''" and deleteOutcome = "answered ()"
         and clk = "clock_at 8" and cid = "Some ''c1''" and model = "''qwen-turbo''"
         and sendOutcome = "answered (reply ''u2'' ''b2'')" and clk' = "clock_at 9"
         and botResponse = "reply ''u2'' ''b2''" and chatId = "''c1''"
         and failedSend = Rejected and e = NetworkError
         and fetchOutcome = "answered stored_messages" and all_messages = stored_messages
         and JSON_parse = "\<lambda>s. Inl SyntaxError"
         and failedFetch = Rejected and e' = NetworkError]
    d t f n g answered_json [of "reply ''u2'' ''b2''"] answered_json [of stored_messages]
  show ?thesis
    by (simp add: i h rejected_json)
qed

text \<open>
  The claim as stated fails in both parts. After a failed send the list holds two messages
  with ids that start with \<^verbatim>\<open>FAKEID\<close>; the delete button of the error message sends a
  DELETE request with that id in its URL. And a backend that assigns the same two ids to a
  second send, as a stub with fixed ids does, makes the reconciliation turn a list with unique
  ids into one that holds each id twice.
\<close>

theorem message_ids_counterexample:
  "map msg_id (messages after_failed_send) = [''FAKEID-TEMP-MESSAGE5'', ''FAKEID-MESSAGE-FAILED5'']
   \<and> map req_url (requests
        (handleDeleteMessageClick ''FAKEID-MESSAGE-FAILED5'' (answered ()) after_failed_send))
       = [''http://127.0.0.1:8000/api/chat/c1/messages'',
          ''http://127.0.0.1:8000/api/message/FAKEID-MESSAGE-FAILED5'']
   \<and> distinct (map msg_id (messages after_send))
   \<and> \<not> handleSend_returns (Some ''c1'') after_send
   \<and> map msg_id (messages (handleSend (Some ''c1'') ''qwen-turbo'' (clock_at 8) (clock_at 9)
        (answered (reply ''u1'' ''b1'')) after_send)) = [''u1'', ''b1'', ''u1'', ''b1'']
   \<and> \<not> distinct (map msg_id (messages
        (handleSend (Some ''c1'') ''qwen-turbo'' (clock_at 8) (clock_at 9)
           (answered (reply ''u1'' ''b1'')) after_send)))"
  by code_simp

end
